theory Spec2Isabelle
  imports Complex_Main "HOL-Library.Multiset"
begin

section \<open>The pricing engine of \<^verbatim>\<open>main.py\<close>\<close>

text \<open>
  The theory embeds the three pure functions of \<^verbatim>\<open>main.py\<close>:
  \<^verbatim>\<open>calculate_logistics_cost\<close>, \<^verbatim>\<open>select_supplier\<close> and \<^verbatim>\<open>calculate_pricing\<close>,
  together with the three module-level rate tables.

  Conventions of the embedding.
  \<^item> Numbers. Python's \<^verbatim>\<open>float\<close> values are modelled by exact rationals (\<^typ>\<open>rat\<close>):
    every decimal literal of the source stands for the decimal it writes, arithmetic is
    exact, and \<^verbatim>\<open>round\<close> rounds the exact value, a tie going to the even neighbour as
    Python does. The binary rounding error of float arithmetic is outside the model, and
    so is NaN. Overflow is modelled by magnitude: an amount beyond the largest finite
    float stands for the infinity that the code's arithmetic makes of it, and rounding it
    to an integer raises, as \<^verbatim>\<open>round(float('inf'))\<close> does.
  \<^item> Strings are \<^typ>\<open>string\<close>; \<^verbatim>\<open>str.upper\<close> and \<^verbatim>\<open>str.lower\<close> act on the 26 ASCII
    letters and leave every other character as it is.
  \<^item> The request dictionary \<^verbatim>\<open>job_data\<close> is a record with one optional field per key
    that the code reads, each of the type the code expects there (\<^verbatim>\<open>None\<close> of the
    option type is a missing key). \<^verbatim>\<open>material_prices\<close> is an association list in
    insertion order, which is the iteration order of a Python dictionary.
  \<^item> The result pair \<^verbatim>\<open>(response, None)\<close> / \<^verbatim>\<open>(None, message)\<close> is a sum: \<open>Inr\<close> the
    response, \<open>Inl\<close> the message.
\<close>

subsection \<open>Built-ins: rounding, division, case conversion, dictionary lookup\<close>

text \<open>\<^verbatim>\<open>round(x)\<close>: the nearest integer, a tie going to the even one.\<close>

definition py_round :: "rat \<Rightarrow> int" where
  "py_round x =
     (let f = \<lfloor>x\<rfloor>; r = x - of_int f
      in if r < 1 / 2 then f
         else if 1 / 2 < r then f + 1
         else if even f then f else f + 1)"

text \<open>\<^verbatim>\<open>round(x, 2)\<close>: the nearest multiple of one hundredth.\<close>

definition py_round2 :: "rat \<Rightarrow> rat" where
  "py_round2 x = of_int (py_round (x * 100)) / 100"

text \<open>
  The exceptions that the arithmetic of \<^verbatim>\<open>calculate_pricing\<close> can raise inside its
  \<^verbatim>\<open>try\<close> block, and \<^verbatim>\<open>str(e)\<close>, which the handler returns as the message.
\<close>

datatype py_exception = ZeroDivisionError | OverflowError

fun str :: "py_exception \<Rightarrow> string" where
  "str ZeroDivisionError = ''float division by zero''"
| "str OverflowError = ''cannot convert float infinity to integer''"

text \<open>\<^verbatim>\<open>a / b\<close> on floats raises when the divisor is zero.\<close>

definition truediv :: "rat \<Rightarrow> rat \<Rightarrow> py_exception + rat" where
  "truediv a b = (if b = 0 then Inl ZeroDivisionError else Inr (a / b))"

text \<open>
  \<^verbatim>\<open>sys.float_info.max\<close>, the largest finite float. A result of float arithmetic beyond it
  is an infinity; \<open>isinf\<close> tells the amounts of the model that stand for one.
\<close>

definition float_max :: rat where
  "float_max = (2 ^ 53 - 1) * 2 ^ 971"

definition isinf :: "rat \<Rightarrow> bool" where
  "isinf x \<longleftrightarrow> float_max < \<bar>x\<bar>"

text \<open>
  \<^verbatim>\<open>round(x)\<close> with one argument converts to an integer and raises \<^verbatim>\<open>OverflowError\<close>
  on an infinity: the exception of the call, if it raises.
\<close>

definition round_raises :: "rat \<Rightarrow> py_exception option" where
  "round_raises x = (if isinf x then Some OverflowError else None)"

definition ascii_lowercase :: string where
  "ascii_lowercase = ''abcdefghijklmnopqrstuvwxyz''"

definition ascii_uppercase :: string where
  "ascii_uppercase = ''ABCDEFGHIJKLMNOPQRSTUVWXYZ''"

definition upper_char :: "char \<Rightarrow> char" where
  "upper_char c = (case map_of (zip ascii_lowercase ascii_uppercase) c of
                     Some u \<Rightarrow> u | None \<Rightarrow> c)"

definition lower_char :: "char \<Rightarrow> char" where
  "lower_char c = (case map_of (zip ascii_uppercase ascii_lowercase) c of
                     Some l \<Rightarrow> l | None \<Rightarrow> c)"

definition upper :: "string \<Rightarrow> string" where
  "upper s = map upper_char s"

definition lower :: "string \<Rightarrow> string" where
  "lower s = map lower_char s"

text \<open>\<^verbatim>\<open>d.get(key, default)\<close> on a dictionary, and on an optional field of the request.\<close>

definition dict_get :: "('k \<rightharpoonup> 'v) \<Rightarrow> 'k \<Rightarrow> 'v \<Rightarrow> 'v" where
  "dict_get d k dflt = (case d k of Some v \<Rightarrow> v | None \<Rightarrow> dflt)"

definition field_get :: "'v option \<Rightarrow> 'v \<Rightarrow> 'v" where
  "field_get field dflt = (case field of Some v \<Rightarrow> v | None \<Rightarrow> dflt)"

subsection \<open>The rate tables (lines 14--51)\<close>

definition STATE_LABOR_RATES_items :: "(string \<times> rat) list" where
  "STATE_LABOR_RATES_items =
    [(''AL'', 28), (''AK'', 35), (''AZ'', 32), (''AR'', 26), (''CA'', 38), (''CO'', 34),
     (''CT'', 40), (''DE'', 33),
     (''FL'', 30), (''GA'', 29), (''HI'', 42), (''ID'', 28), (''IL'', 36), (''IN'', 29),
     (''IA'', 27), (''KS'', 26),
     (''KY'', 27), (''LA'', 27), (''ME'', 31), (''MD'', 34), (''MA'', 41), (''MI'', 32),
     (''MN'', 33), (''MS'', 25),
     (''MO'', 28), (''MT'', 29), (''NE'', 27), (''NV'', 34), (''NH'', 32), (''NJ'', 38),
     (''NM'', 27), (''NY'', 39),
     (''NC'', 28), (''ND'', 26), (''OH'', 30), (''OK'', 26), (''OR'', 33), (''PA'', 35),
     (''RI'', 36), (''SC'', 27),
     (''SD'', 25), (''TN'', 28), (''TX'', 29), (''UT'', 30), (''VT'', 32), (''VA'', 31),
     (''WA'', 36), (''WV'', 27),
     (''WI'', 31), (''WY'', 27)]"

definition STATE_LABOR_RATES :: "string \<rightharpoonup> rat" where
  "STATE_LABOR_RATES = map_of STATE_LABOR_RATES_items"

definition JOB_TYPE_MULTIPLIERS_items :: "(string \<times> rat) list" where
  "JOB_TYPE_MULTIPLIERS_items =
    [(''plumbing'', 1.2),
     (''electrical'', 1.3),
     (''hvac'', 1.25),
     (''roofing'', 1.4),
     (''carpentry'', 1.15),
     (''painting'', 1.0),
     (''flooring'', 1.1),
     (''drywall'', 1.05),
     (''general_repair'', 1.0),
     (''landscaping'', 0.9),
     (''window_replacement'', 1.15),
     (''insulation'', 1.0),
     (''siding'', 1.2),
     (''bathroom_remodel'', 1.3),
     (''kitchen_remodel'', 1.4)]"

definition JOB_TYPE_MULTIPLIERS :: "string \<rightharpoonup> rat" where
  "JOB_TYPE_MULTIPLIERS = map_of JOB_TYPE_MULTIPLIERS_items"

definition URGENCY_MULTIPLIERS_items :: "(string \<times> rat) list" where
  "URGENCY_MULTIPLIERS_items =
    [(''normal'', 1.0),
     (''same_day'', 1.25),
     (''emergency'', 1.5)]"

definition URGENCY_MULTIPLIERS :: "string \<rightharpoonup> rat" where
  "URGENCY_MULTIPLIERS = map_of URGENCY_MULTIPLIERS_items"

definition LOGISTICS_RATE_PER_KM :: rat where
  "LOGISTICS_RATE_PER_KM = 0.50"

subsection \<open>\<^verbatim>\<open>calculate_logistics_cost\<close> (lines 53--57)\<close>

definition calculate_logistics_cost :: "rat \<Rightarrow> rat" where
  "calculate_logistics_cost distance_km =
     (let base_cost = 50;
          distance_cost = distance_km * LOGISTICS_RATE_PER_KM
      in py_round2 (base_cost + distance_cost))"

subsection \<open>\<^verbatim>\<open>select_supplier\<close> (lines 59--65)\<close>

text \<open>
  \<^verbatim>\<open>sorted(material_prices.items(), key=lambda x: x[1])\<close> is a stable sort of the entries
  by price, as \<^const>\<open>sort_key\<close> is. The list is not empty where its head is read, since
  the empty dictionary has returned before.
\<close>

definition select_supplier :: "(string \<times> rat) list \<Rightarrow> string option \<times> rat" where
  "select_supplier material_prices =
     (if material_prices = [] then (None, 0)
      else (let sorted_suppliers = sort_key snd material_prices
            in (Some (fst (hd sorted_suppliers)), snd (hd sorted_suppliers))))"

subsection \<open>\<^verbatim>\<open>calculate_pricing\<close> (lines 67--183)\<close>

text \<open>
  The body of \<^verbatim>\<open>calculate_pricing\<close> is embedded block by block, in the order of the
  source; \<open>pricing_locals\<close> below puts the blocks together.
\<close>

text \<open>Lines 87--88: an urgency that is not a key of the table becomes \<^verbatim>\<open>'normal'\<close>.\<close>

definition coerce_urgency :: "string \<Rightarrow> string" where
  "coerce_urgency urgency = (if URGENCY_MULTIPLIERS urgency = None then ''normal'' else urgency)"

text \<open>Lines 93--105: the labour cost, from the normalised inputs.\<close>

definition labor_cost_of :: "string \<Rightarrow> string \<Rightarrow> rat \<Rightarrow> string \<Rightarrow> rat" where
  "labor_cost_of state job_type labor_hours urgency =
     (let state_labor_rate = dict_get STATE_LABOR_RATES state 30;
          job_multiplier = dict_get JOB_TYPE_MULTIPLIERS job_type 1.0;
          urgency_multiplier = dict_get URGENCY_MULTIPLIERS urgency 1.0;
          base_hourly_rate = state_labor_rate * job_multiplier;
          labor_cost = base_hourly_rate * labor_hours * urgency_multiplier
      in py_round2 labor_cost)"

text \<open>
  Lines 107--113: the supplier and the material cost; the result is the pair
  \<^verbatim>\<open>(material_source, material_cost)\<close>.
\<close>

definition material_choice :: "(string \<times> rat) list \<Rightarrow> string \<times> rat" where
  "material_choice material_prices =
     (case select_supplier material_prices of
        (None, material_cost) \<Rightarrow> (''Standard Materials'', 0)
      | (Some material_source, material_cost) \<Rightarrow> (material_source, py_round2 material_cost))"

text \<open>Lines 129--133: the client price that makes the margin 27 percent of itself.\<close>

definition target_margin_percent :: rat where
  "target_margin_percent = 0.27"

definition target_client_price :: "rat \<Rightarrow> rat" where
  "target_client_price subtotal = py_round2 (subtotal / (1 - target_margin_percent))"

text \<open>
  Line 139: \<^verbatim>\<open>platform_margin / client_price if client_price > 0 else 0\<close>. The division is
  evaluated only in the first branch of the conditional expression.
\<close>

definition margin_percent :: "rat \<Rightarrow> rat \<Rightarrow> py_exception + rat" where
  "margin_percent platform_margin client_price =
     (if client_price > 0 then truediv platform_margin client_price else Inr 0)"

text \<open>
  Lines 141--149: the adjustment of the price when the margin percentage is out of
  bounds; the result is the pair \<^verbatim>\<open>(client_price, platform_margin)\<close> afterwards.
\<close>

definition adjust_margin :: "rat \<Rightarrow> rat \<Rightarrow> rat \<Rightarrow> rat \<Rightarrow> rat \<times> rat" where
  "adjust_margin subtotal client_price platform_margin actual_margin_percent =
     (if actual_margin_percent < 0.20 then
        (let client_price = py_round2 (subtotal / 0.80);
             platform_margin = py_round2 (client_price - subtotal)
         in (client_price, platform_margin))
      else if actual_margin_percent > 0.35 then
        (let client_price = py_round2 (subtotal / 0.65);
             platform_margin = py_round2 (client_price - subtotal)
         in (client_price, platform_margin))
      else (client_price, platform_margin))"

text \<open>
  Lines 129--149 together: from the subtotal to the triple
  \<^verbatim>\<open>(actual_margin_percent, client_price, platform_margin)\<close>.
\<close>

definition margin_bounded_price :: "rat \<Rightarrow> py_exception + rat \<times> rat \<times> rat" where
  "margin_bounded_price subtotal =
     (let client_price = target_client_price subtotal;
          platform_margin = py_round2 (client_price - subtotal)
      in case margin_percent platform_margin client_price of
           Inl e \<Rightarrow> Inl e
         | Inr actual_margin_percent \<Rightarrow>
             (case adjust_margin subtotal client_price platform_margin actual_margin_percent of
                (client_price, platform_margin) \<Rightarrow>
                  Inr (actual_margin_percent, client_price, platform_margin)))"

text \<open>Lines 151--156.\<close>

definition confidence_of :: "(string \<times> rat) list \<Rightarrow> rat \<Rightarrow> rat \<Rightarrow> string" where
  "confidence_of material_prices labor_hours client_price =
     (let pricing_confidence = ''high'';
          pricing_confidence =
            (if material_prices = [] then ''medium'' else pricing_confidence);
          pricing_confidence =
            (if labor_hours > 50 \<or> client_price > 2000 then ''medium''
             else pricing_confidence)
      in pricing_confidence)"

text \<open>Lines 158--165.\<close>

definition approval_of :: "string \<Rightarrow> rat \<Rightarrow> string \<Rightarrow> bool" where
  "approval_of urgency client_price pricing_confidence =
     (let approval_required = False;
          approval_required = (if urgency = ''emergency'' then True else approval_required);
          approval_required = (if client_price > 3000 then True else approval_required);
          approval_required =
            (if pricing_confidence = ''low'' then True else approval_required)
      in approval_required)"

text \<open>The request: one optional field per key read by \<^verbatim>\<open>job_data.get\<close>.\<close>

record job_data =
  job_type :: "string option"
  job_description :: "string option"
  urgency :: "string option"
  labor_hours :: "rat option"
  state :: "string option"
  distance_km :: "rat option"
  material_prices :: "(string \<times> rat) list option"

text \<open>
  The local variables of \<^verbatim>\<open>calculate_pricing\<close> as they stand at line 167, before the
  response is built: money amounts with two decimals.
\<close>

record locals =
  labor_cost :: rat
  material_source :: string
  material_cost :: rat
  logistics_cost :: rat
  subtotal :: rat
  technician_payout :: rat
  actual_margin_percent :: rat
  client_price :: rat
  platform_margin :: rat
  pricing_confidence :: string
  approval_required :: bool

text \<open>The response dictionary of lines 168--178, one field per key.\<close>

record response =
  resp_client_price :: int
  resp_technician_payout :: int
  resp_material_source :: string
  resp_material_cost :: int
  resp_labor_cost :: int
  resp_logistics_cost :: int
  resp_platform_margin :: int
  resp_pricing_confidence :: string
  resp_approval_required :: bool

text \<open>
  Lines 72--165. A raised exception leaves the \<^verbatim>\<open>try\<close> block for the handler of line 182,
  which returns its text as the message.
\<close>

definition pricing_locals :: "job_data \<Rightarrow> string + locals" where
  "pricing_locals job_data =
     (let job_type = lower (field_get (job_type job_data) []);
          urgency = lower (field_get (urgency job_data) ''normal'');
          labor_hours = field_get (labor_hours job_data) 2;
          state = upper (field_get (state job_data) ''CA'');
          distance_km = field_get (distance_km job_data) 10;
          material_prices = field_get (material_prices job_data) []
      in if STATE_LABOR_RATES state = None then Inl ''Invalid state code''
         else
           let urgency = coerce_urgency urgency
           in if labor_hours < 0.5 \<or> labor_hours > 100
              then Inl ''Labor hours must be between 0.5 and 100''
              else
                let labor_cost = labor_cost_of state job_type labor_hours urgency;
                    (material_source, material_cost) = material_choice material_prices;
                    logistics_cost = calculate_logistics_cost distance_km;
                    subtotal = labor_cost + material_cost + logistics_cost;
                    technician_payout = py_round2 (labor_cost * 0.68)
                in case margin_bounded_price subtotal of
                     Inl e \<Rightarrow> Inl (str e)
                   | Inr (percent, price, margin) \<Rightarrow>
                       let pricing_confidence = confidence_of material_prices labor_hours price;
                           approval_required = approval_of urgency price pricing_confidence
                       in Inr \<lparr>labor_cost = labor_cost,
                               material_source = material_source,
                               material_cost = material_cost,
                               logistics_cost = logistics_cost,
                               subtotal = subtotal,
                               technician_payout = technician_payout,
                               actual_margin_percent = percent,
                               client_price = price,
                               platform_margin = margin,
                               pricing_confidence = pricing_confidence,
                               approval_required = approval_required\<rparr>)"

text \<open>
  Lines 168--178 evaluate six \<^verbatim>\<open>round\<close> calls in the order of the dictionary's keys. The
  first that raises ends the \<^verbatim>\<open>try\<close> block: \<open>response_exception\<close> is its exception,
  \<open>None\<close> when no call raises.
\<close>

definition response_exception :: "locals \<Rightarrow> py_exception option" where
  "response_exception l =
     (case List.map_filter round_raises
             [client_price l, technician_payout l, material_cost l, labor_cost l,
              logistics_cost l, platform_margin l] of
        [] \<Rightarrow> None
      | e # _ \<Rightarrow> Some e)"

text \<open>
  Lines 168--178 where no call raises: the response, every money field rounded to a whole
  unit.
\<close>

definition build_response :: "locals \<Rightarrow> response" where
  "build_response l =
     \<lparr>resp_client_price = py_round (client_price l),
      resp_technician_payout = py_round (technician_payout l),
      resp_material_source = material_source l,
      resp_material_cost = py_round (material_cost l),
      resp_labor_cost = py_round (labor_cost l),
      resp_logistics_cost = py_round (logistics_cost l),
      resp_platform_margin = py_round (platform_margin l),
      resp_pricing_confidence = pricing_confidence l,
      resp_approval_required = approval_required l\<rparr>"

text \<open>
  Lines 67--183: the pair that \<^verbatim>\<open>calculate_pricing\<close> returns. An exception raised while
  the response is built reaches the handler of line 182 like any other.
\<close>

definition calculate_pricing :: "job_data \<Rightarrow> string + response" where
  "calculate_pricing job_data =
     (case pricing_locals job_data of
        Inl message \<Rightarrow> Inl message
      | Inr l \<Rightarrow>
          (case response_exception l of
             Some e \<Rightarrow> Inl (str e)
           | None \<Rightarrow> Inr (build_response l)))"

subsection \<open>Requests used as examples\<close>

text \<open>
  The request of the specification's worked example: plumbing in California, normal
  urgency, two hours, ten kilometres, no material quotes.
\<close>

definition example_request :: job_data where
  "example_request =
     \<lparr>job_type = Some ''plumbing'', job_description = None, urgency = Some ''normal'',
      labor_hours = Some 2, state = Some ''CA'', distance_km = Some 10,
      material_prices = Some []\<rparr>"

definition example_locals :: locals where
  "example_locals =
     \<lparr>labor_cost = 91.20, material_source = ''Standard Materials'', material_cost = 0,
      logistics_cost = 55.00, subtotal = 146.20, technician_payout = 62.02,
      actual_margin_percent = 5407 / 20027, client_price = 200.27,
      platform_margin = 54.07, pricing_confidence = ''medium'',
      approval_required = False\<rparr>"

definition example_response :: response where
  "example_response =
     \<lparr>resp_client_price = 200, resp_technician_payout = 62,
      resp_material_source = ''Standard Materials'', resp_material_cost = 0,
      resp_labor_cost = 91, resp_logistics_cost = 55, resp_platform_margin = 54,
      resp_pricing_confidence = ''medium'', resp_approval_required = False\<rparr>"

text \<open>
  Two requests with a negative distance, which the validation lets through: half an hour
  of painting in California with no material quotes, at a distance of -1000 km and of
  -137.98 km. The first has the subtotal -431, the second the subtotal 0.01.
\<close>

definition negative_request :: job_data where
  "negative_request =
     \<lparr>job_type = Some ''painting'', job_description = None, urgency = Some ''normal'',
      labor_hours = Some 0.5, state = Some ''CA'', distance_km = Some (- 1000),
      material_prices = Some []\<rparr>"

definition negative_locals :: locals where
  "negative_locals =
     \<lparr>labor_cost = 19, material_source = ''Standard Materials'', material_cost = 0,
      logistics_cost = - 450, subtotal = - 431, technician_payout = 12.92,
      actual_margin_percent = 0, client_price = - 538.75,
      platform_margin = - 107.75, pricing_confidence = ''medium'',
      approval_required = False\<rparr>"

definition one_cent_request :: job_data where
  "one_cent_request =
     \<lparr>job_type = Some ''painting'', job_description = None, urgency = Some ''normal'',
      labor_hours = Some 0.5, state = Some ''CA'', distance_km = Some (- 137.98),
      material_prices = Some []\<rparr>"


definition one_cent_locals :: locals where
  "one_cent_locals =
     \<lparr>labor_cost = 19, material_source = ''Standard Materials'', material_cost = 0,
      logistics_cost = - 18.99, subtotal = 0.01, technician_payout = 12.92,
      actual_margin_percent = 0, client_price = 0.01,
      platform_margin = 0, pricing_confidence = ''medium'',
      approval_required = False\<rparr>"

section \<open>Properties\<close>

subsection \<open>Rounding\<close>

lemma floor_rat_numeral [simp]:
  "\<lfloor>numeral a / numeral b :: rat\<rfloor> = numeral a div numeral b"
  using floor_divide_of_int_eq [of "numeral a" "numeral b", where ?'a = rat] by simp

lemma floor_rat_neg_numeral [simp]:
  "\<lfloor>- (numeral a / numeral b) :: rat\<rfloor> = - numeral a div numeral b"
  using floor_divide_of_int_eq [of "- numeral a" "numeral b", where ?'a = rat] by simp

lemmas py_round_defs = py_round2_def py_round_def Let_def

lemma py_round_cases: "py_round x = \<lfloor>x\<rfloor> \<or> py_round x = \<lfloor>x\<rfloor> + 1"
  by (simp add: py_round_def Let_def)

lemma py_round_lower: "x - 1 / 2 \<le> of_int (py_round x)"
  unfolding py_round_def Let_def
  by (auto simp: not_less) linarith+

lemma py_round_upper: "of_int (py_round x) \<le> x + 1 / 2"
  unfolding py_round_def Let_def
  by (auto simp: not_less) linarith+

lemma py_round_of_int [simp]: "py_round (of_int k) = k"
  by (simp add: py_round_def Let_def)

lemma py_round_mono:
  assumes "x \<le> y"
  shows "py_round x \<le> py_round y"
proof (cases "\<lfloor>x\<rfloor> = \<lfloor>y\<rfloor>")
  case True
  with assms show ?thesis
    by (auto simp: py_round_def Let_def)
next
  case False
  with assms have "\<lfloor>x\<rfloor> < \<lfloor>y\<rfloor>"
    using floor_mono [of x y] by linarith
  moreover have "py_round x \<le> \<lfloor>x\<rfloor> + 1"
    using py_round_cases [of x] by linarith
  moreover have "\<lfloor>y\<rfloor> \<le> py_round y"
    using py_round_cases [of y] by linarith
  ultimately show ?thesis by linarith
qed

lemma py_round2_lower: "x - 1 / 200 \<le> py_round2 x"
  using py_round_lower [of "x * 100"] by (simp add: py_round2_def field_simps)

lemma py_round2_upper: "py_round2 x \<le> x + 1 / 200"
  using py_round_upper [of "x * 100"] by (simp add: py_round2_def field_simps)

lemma py_round2_mono: "x \<le> y \<Longrightarrow> py_round2 x \<le> py_round2 y"
  using py_round_mono [of "x * 100" "y * 100"] by (simp add: py_round2_def divide_right_mono)

text \<open>Amounts with two decimals: the integer multiples of one hundredth.\<close>

lemma py_round2_hundredths [simp]: "py_round2 (of_int k / 100) = of_int k / 100"
  by (simp add: py_round2_def)

lemma py_round2_idem [simp]: "py_round2 (py_round2 x) = py_round2 x"
  by (simp add: py_round2_def)

lemma py_round2_0 [simp]: "py_round2 0 = 0"
  using py_round2_hundredths [of 0] by simp

lemma py_round2_nonneg: "0 \<le> x \<Longrightarrow> 0 \<le> py_round2 x"
  using py_round2_mono [of 0 x] by simp

subsection \<open>The shape of a run of \<^verbatim>\<open>calculate_pricing\<close>\<close>

lemmas table_defs =
  STATE_LABOR_RATES_def STATE_LABOR_RATES_items_def
  JOB_TYPE_MULTIPLIERS_def JOB_TYPE_MULTIPLIERS_items_def
  URGENCY_MULTIPLIERS_def URGENCY_MULTIPLIERS_items_def

lemmas case_defs =
  upper_def upper_char_def lower_def lower_char_def ascii_lowercase_def ascii_uppercase_def

lemma margin_percent_eq: "margin_percent m c = Inr (if 0 < c then m / c else 0)"
  by (simp add: margin_percent_def truediv_def)

lemma margin_bounded_price_eq:
  "margin_bounded_price s =
     (let c = target_client_price s; m = py_round2 (c - s); a = (if 0 < c then m / c else 0)
      in Inr (a, fst (adjust_margin s c m a), snd (adjust_margin s c m a)))"
  by (simp add: margin_bounded_price_def margin_percent_eq Let_def split: prod.split)

lemma margin_bounded_price_Inr: "\<exists>a c m. margin_bounded_price s = Inr (a, c, m)"
  by (simp add: margin_bounded_price_eq Let_def)

text \<open>The two validation failures are the only ways to an error.\<close>

lemma pricing_locals_cases:
  "pricing_locals jd =
     (if STATE_LABOR_RATES (upper (field_get (state jd) ''CA'')) = None
      then Inl ''Invalid state code''
      else if field_get (labor_hours jd) 2 < 1 / 2 \<or> 100 < field_get (labor_hours jd) 2
      then Inl ''Labor hours must be between 0.5 and 100''
      else Inr (projr (pricing_locals jd)))"
  using margin_bounded_price_Inr
    [of "labor_cost_of (upper (field_get (state jd) ''CA''))
          (lower (field_get (job_type jd) []))
          (field_get (labor_hours jd) 2)
          (coerce_urgency (lower (field_get (urgency jd) ''normal'')))
         + snd (material_choice (field_get (material_prices jd) []))
         + calculate_logistics_cost (field_get (distance_km jd) 10)"]
  by (auto simp: pricing_locals_def Let_def split: prod.splits)

lemma pricing_locals_valid:
  assumes "pricing_locals jd = Inr q"
  shows "STATE_LABOR_RATES (upper (field_get (state jd) ''CA'')) \<noteq> None"
    and "1 / 2 \<le> field_get (labor_hours jd) 2"
    and "field_get (labor_hours jd) 2 \<le> 100"
  using assms pricing_locals_cases [of jd] by (auto split: if_splits)

lemma pricing_locals_succeeds:
  assumes "STATE_LABOR_RATES (upper (field_get (state jd) ''CA'')) \<noteq> None"
    and "1 / 2 \<le> field_get (labor_hours jd) 2"
    and "field_get (labor_hours jd) 2 \<le> 100"
  shows "\<exists>q. pricing_locals jd = Inr q"
  using assms pricing_locals_cases [of jd] by (auto simp: not_less)

lemma locals_labor_cost:
  assumes "pricing_locals jd = Inr q"
  shows "labor_cost q =
          labor_cost_of (upper (field_get (state jd) ''CA''))
            (lower (field_get (job_type jd) []))
            (field_get (labor_hours jd) 2)
            (coerce_urgency (lower (field_get (urgency jd) ''normal'')))"
  using assms
  by (auto simp: pricing_locals_def Let_def split: if_splits prod.splits sum.splits)

lemma locals_material:
  assumes "pricing_locals jd = Inr q"
  shows "(material_source q, material_cost q) =
           material_choice (field_get (material_prices jd) [])"
  using assms
  by (auto simp: pricing_locals_def Let_def split: if_splits prod.splits sum.splits)

lemma locals_logistics_cost:
  assumes "pricing_locals jd = Inr q"
  shows "logistics_cost q = calculate_logistics_cost (field_get (distance_km jd) 10)"
  using assms
  by (auto simp: pricing_locals_def Let_def split: if_splits prod.splits sum.splits)

lemma locals_subtotal:
  assumes "pricing_locals jd = Inr q"
  shows "subtotal q = labor_cost q + material_cost q + logistics_cost q"
  using assms
  by (auto simp: pricing_locals_def Let_def split: if_splits prod.splits sum.splits)

lemma locals_technician_payout:
  assumes "pricing_locals jd = Inr q"
  shows "technician_payout q = py_round2 (labor_cost q * 0.68)"
  using assms
  by (auto simp: pricing_locals_def Let_def split: if_splits prod.splits sum.splits)

lemma locals_margin:
  assumes "pricing_locals jd = Inr q"
  shows "margin_bounded_price (subtotal q) =
           Inr (actual_margin_percent q, client_price q, platform_margin q)"
  using assms
  by (auto simp: pricing_locals_def Let_def split: if_splits prod.splits sum.splits)



subsection \<open>What the result depends on\<close>

text \<open>Building the response raises exactly when one of the six amounts is infinite.\<close>

lemma response_exception_None:
  "response_exception l = None \<longleftrightarrow>
     \<not> isinf (client_price l) \<and> \<not> isinf (technician_payout l)
     \<and> \<not> isinf (material_cost l) \<and> \<not> isinf (labor_cost l)
     \<and> \<not> isinf (logistics_cost l) \<and> \<not> isinf (platform_margin l)"
  by (simp add: response_exception_def List.map_filter_simps round_raises_def)

lemma response_exception_Some:
  "response_exception l = Some e \<Longrightarrow> e = OverflowError"
  by (simp add: response_exception_def List.map_filter_simps round_raises_def
      split: if_splits)


lemma calculate_pricing_Inr:
  "pricing_locals jd = Inr q \<Longrightarrow> response_exception q = None \<Longrightarrow>
     calculate_pricing jd = Inr (build_response q)"
  by (simp add: calculate_pricing_def)


lemma calculate_pricing_InrD:
  assumes "calculate_pricing jd = Inr r"
  obtains q where "pricing_locals jd = Inr q" and "response_exception q = None"
    and "r = build_response q"
  using assms by (auto simp: calculate_pricing_def split: sum.splits option.splits)

text \<open>A message other than the one of the overflow comes from lines 72--165.\<close>

lemma calculate_pricing_Inl:
  assumes "m \<noteq> str OverflowError"
  shows "calculate_pricing jd = Inl m \<longleftrightarrow> pricing_locals jd = Inl m"
  using assms
  by (auto simp: calculate_pricing_def split: sum.splits option.splits
      dest!: response_exception_Some)



text \<open>The request enters the computation through six normalised values only.\<close>

lemma pricing_locals_cong:
  assumes "lower (field_get (job_type a) []) = lower (field_get (job_type b) [])"
    and "coerce_urgency (lower (field_get (urgency a) ''normal''))
         = coerce_urgency (lower (field_get (urgency b) ''normal''))"
    and "field_get (labor_hours a) 2 = field_get (labor_hours b) 2"
    and "upper (field_get (state a) ''CA'') = upper (field_get (state b) ''CA'')"
    and "field_get (distance_km a) 10 = field_get (distance_km b) 10"
    and "field_get (material_prices a) [] = field_get (material_prices b) []"
  shows "pricing_locals a = pricing_locals b"
  using assms by (simp add: pricing_locals_def Let_def)


lemma upper_char_idem: "upper_char (upper_char c) = upper_char c"
  by (auto simp: upper_char_def ascii_lowercase_def ascii_uppercase_def
           split: option.splits if_splits)

lemma upper_idem: "upper (upper s) = upper s"
  by (simp add: upper_def upper_char_idem)

lemma lower_normal: "lower ''normal'' = ''normal''"
  by (simp add: case_defs)

lemma upper_CA: "upper ''CA'' = ''CA''"
  by (simp add: case_defs)

lemma rate_CA: "STATE_LABOR_RATES ''CA'' = Some 38"
  by (simp add: table_defs)

lemma urgency_normal: "URGENCY_MULTIPLIERS ''normal'' = Some 1"
  by (simp add: table_defs)

lemma coerce_urgency_normal: "coerce_urgency ''normal'' = ''normal''"
  by (simp add: coerce_urgency_def)

subsection \<open>The worked example\<close>

lemma example_run: "pricing_locals example_request = Inr example_locals"
proof -
  have st: "upper ''CA'' = ''CA''" "lower ''plumbing'' = ''plumbing''"
    "lower ''normal'' = ''normal''"
    by (simp_all add: case_defs)
  have tb: "STATE_LABOR_RATES ''CA'' = Some 38" "JOB_TYPE_MULTIPLIERS ''plumbing'' = Some 1.2"
    "URGENCY_MULTIPLIERS ''normal'' = Some 1.0"
    by (simp_all add: table_defs)
  have lc: "labor_cost_of ''CA'' ''plumbing'' 2 ''normal'' = 91.20"
    by (simp add: labor_cost_of_def dict_get_def tb py_round_defs)
  have lg: "calculate_logistics_cost 10 = 55"
    by (simp add: calculate_logistics_cost_def LOGISTICS_RATE_PER_KM_def py_round_defs)
  have mc: "material_choice [] = (''Standard Materials'', 0)"
    by (simp add: material_choice_def select_supplier_def)
  have tp0: "py_round2 (91.20 * 0.68) = 62.02"
    by (simp add: py_round_defs)
  have tp: "py_round2 x = 62.02" if "x = 91.20 * 0.68" for x
    unfolding that by (rule tp0)
  have mb0: "margin_bounded_price 146.20 = Inr (5407 / 20027, 200.27, 54.07)"
    by (simp add: margin_bounded_price_def target_client_price_def target_margin_percent_def
        margin_percent_def truediv_def adjust_margin_def py_round_defs)
  have mb: "margin_bounded_price s = Inr (5407 / 20027, 200.27, 54.07)" if "s = 146.20" for s
    unfolding that by (rule mb0)
  have cf: "confidence_of [] 2 c = ''medium''" for c
    by (simp add: confidence_of_def)
  have ap: "approval_of ''normal'' c ''medium'' = False" if "c = 200.27" for c
    unfolding that by (simp add: approval_of_def)
  show ?thesis
    by (simp add: pricing_locals_def example_request_def example_locals_def field_get_def
        st tb coerce_urgency_def lc lg mc tp mb cf ap Let_def)
qed

lemma example_rounded: "build_response example_locals = example_response"
  by (simp add: build_response_def example_locals_def example_response_def py_round_def Let_def)

lemma example_no_exception: "response_exception example_locals = None"
  by (simp add: response_exception_None isinf_def float_max_def example_locals_def)

lemma example_call: "calculate_pricing example_request = Inr example_response"
  using calculate_pricing_Inr [OF example_run example_no_exception]
  by (simp only: example_rounded)

text \<open>
  Claim C3. On the request plumbing, CA, normal, two hours, ten kilometres and no
  material quotes, \<^verbatim>\<open>calculate_pricing\<close> succeeds with labor_cost 91.20, logistics_cost
  55.00, material_cost 0, subtotal 146.20, client_price 200.27, technician_payout 62.02,
  confidence medium and no approval required. The price is the 27 percent target price:
  the margin percentage 54.07 / 200.27 is neither below 0.20 nor above 0.35, so the
  adjustment leaves price and margin as they are. The response carries the money fields
  rounded to whole units: 200, 62, 0, 91, 55 and margin 54.
\<close>

theorem worked_example:
  "pricing_locals example_request = Inr example_locals
   \<and> labor_cost example_locals = 91.20
   \<and> logistics_cost example_locals = 55.00
   \<and> material_cost example_locals = 0
   \<and> subtotal example_locals = 146.20
   \<and> client_price example_locals = 200.27
   \<and> client_price example_locals = target_client_price (subtotal example_locals)
   \<and> actual_margin_percent example_locals = 54.07 / 200.27
   \<and> \<not> actual_margin_percent example_locals < 0.20
   \<and> \<not> actual_margin_percent example_locals > 0.35
   \<and> adjust_margin 146.20 200.27 54.07 (actual_margin_percent example_locals) = (200.27, 54.07)
   \<and> technician_payout example_locals = 62.02
   \<and> pricing_confidence example_locals = ''medium''
   \<and> approval_required example_locals = False
   \<and> calculate_pricing example_request = Inr example_response
   \<and> resp_labor_cost example_response = 91
   \<and> resp_logistics_cost example_response = 55
   \<and> resp_material_cost example_response = 0
   \<and> resp_client_price example_response = 200
   \<and> resp_technician_payout example_response = 62
   \<and> resp_platform_margin example_response = 54"
proof -
  have "target_client_price 146.20 = 200.27"
    by (simp add: target_client_price_def target_margin_percent_def py_round_defs)
  moreover have "adjust_margin 146.20 200.27 54.07 (5407 / 20027) = (200.27, 54.07)"
    by (simp add: adjust_margin_def)
  ultimately show ?thesis
    using example_call
    by (simp add: example_run example_locals_def example_response_def)
qed

subsection \<open>Defaults and case conversion\<close>

text \<open>
  Claim C10. A request without a \<^verbatim>\<open>state\<close> key is priced as one with state CA, whose
  base rate is 38, and never fails with ``Invalid state code''. A supplied state is
  matched against the rate table after upper-casing: two states with the same upper-case
  form give the same result, a state gives the result of its upper-case form, and
  the call fails with ``Invalid state code'' exactly when the upper-cased state is not a
  key of the table.
\<close>

theorem default_state_and_case_insensitivity:
  "(state jd = None \<longrightarrow>
      calculate_pricing jd = calculate_pricing (jd\<lparr>state := Some ''CA''\<rparr>)
      \<and> STATE_LABOR_RATES (upper (field_get (state jd) ''CA'')) = Some 38
      \<and> calculate_pricing jd \<noteq> Inl ''Invalid state code''
      \<and> (\<forall>q. pricing_locals jd = Inr q \<longrightarrow>
            labor_cost q =
              py_round2 (38
                * dict_get JOB_TYPE_MULTIPLIERS (lower (field_get (job_type jd) [])) 1.0
                * field_get (labor_hours jd) 2
                * dict_get URGENCY_MULTIPLIERS
                    (coerce_urgency (lower (field_get (urgency jd) ''normal''))) 1.0)))
   \<and> (upper s = upper s' \<longrightarrow>
        calculate_pricing (jd\<lparr>state := Some s\<rparr>) = calculate_pricing (jd\<lparr>state := Some s'\<rparr>))
   \<and> calculate_pricing (jd\<lparr>state := Some s\<rparr>) = calculate_pricing (jd\<lparr>state := Some (upper s)\<rparr>)
   \<and> (calculate_pricing (jd\<lparr>state := Some s\<rparr>) = Inl ''Invalid state code''
        \<longleftrightarrow> STATE_LABOR_RATES (upper s) = None)"
proof -
  have same: "calculate_pricing (jd\<lparr>state := a\<rparr>) = calculate_pricing (jd\<lparr>state := b\<rparr>)"
    if "upper (field_get a ''CA'') = upper (field_get b ''CA'')" for a b
  proof -
    have "pricing_locals (jd\<lparr>state := a\<rparr>) = pricing_locals (jd\<lparr>state := b\<rparr>)"
      using that by (intro pricing_locals_cong) simp_all
    then show ?thesis by (simp add: calculate_pricing_def)
  qed
  have invalid_iff: "calculate_pricing x = Inl ''Invalid state code''
        \<longleftrightarrow> STATE_LABOR_RATES (upper (field_get (state x) ''CA'')) = None" for x
    by (subst calculate_pricing_Inl, simp, subst pricing_locals_cases) simp
  have missing: "calculate_pricing jd = calculate_pricing (jd\<lparr>state := Some ''CA''\<rparr>)"
      "STATE_LABOR_RATES (upper (field_get (state jd) ''CA'')) = Some 38"
      "calculate_pricing jd \<noteq> Inl ''Invalid state code''"
    if "state jd = None"
  proof -
    from that have "jd = jd\<lparr>state := None\<rparr>" by simp
    then have "calculate_pricing jd = calculate_pricing (jd\<lparr>state := None\<rparr>)" by simp
    also have "\<dots> = calculate_pricing (jd\<lparr>state := Some ''CA''\<rparr>)"
      by (rule same) (simp add: field_get_def)
    finally show "calculate_pricing jd = calculate_pricing (jd\<lparr>state := Some ''CA''\<rparr>)" .
    show rate: "STATE_LABOR_RATES (upper (field_get (state jd) ''CA'')) = Some 38"
      using that by (simp add: field_get_def upper_CA rate_CA)
    then show "calculate_pricing jd \<noteq> Inl ''Invalid state code''"
      by (simp add: invalid_iff)
  qed
  have labor: "labor_cost q =
              py_round2 (38
                * dict_get JOB_TYPE_MULTIPLIERS (lower (field_get (job_type jd) [])) 1.0
                * field_get (labor_hours jd) 2
                * dict_get URGENCY_MULTIPLIERS
                    (coerce_urgency (lower (field_get (urgency jd) ''normal''))) 1.0)"
    if "state jd = None" and "pricing_locals jd = Inr q" for q
    using locals_labor_cost [OF that(2)] missing(2) [OF that(1)]
    by (simp add: labor_cost_of_def dict_get_def Let_def)
  have upper_form: "calculate_pricing (jd\<lparr>state := Some s\<rparr>)
      = calculate_pricing (jd\<lparr>state := Some (upper s)\<rparr>)"
    by (rule same) (simp add: field_get_def upper_idem)
  have "calculate_pricing (jd\<lparr>state := Some s\<rparr>) = Inl ''Invalid state code''
        \<longleftrightarrow> STATE_LABOR_RATES (upper s) = None"
    by (simp add: invalid_iff field_get_def)
  moreover have "upper s = upper s' \<longrightarrow>
        calculate_pricing (jd\<lparr>state := Some s\<rparr>) = calculate_pricing (jd\<lparr>state := Some s'\<rparr>)"
    using same [of "Some s" "Some s'"] by (simp add: field_get_def)
  ultimately show ?thesis
    using missing labor upper_form by blast
qed

theorem default_state_and_case_insensitivity_witness:
  "calculate_pricing (example_request\<lparr>state := None\<rparr>) = Inr example_response
   \<and> calculate_pricing (example_request\<lparr>state := Some ''ca''\<rparr>) = Inr example_response
   \<and> calculate_pricing (example_request\<lparr>state := Some ''Ca''\<rparr>) = Inr example_response
   \<and> calculate_pricing (example_request\<lparr>state := Some ''zz''\<rparr>) = Inl ''Invalid state code''"
proof -
  have ca: "upper ''ca'' = upper ''CA''" "upper ''Ca'' = upper ''CA''"
    by (simp_all add: case_defs)
  have zz: "STATE_LABOR_RATES (upper ''zz'') = None"
    by (simp add: case_defs table_defs)
  have ex: "example_request\<lparr>state := Some ''CA''\<rparr> = example_request"
    by (simp add: example_request_def)
  have run: "calculate_pricing example_request = Inr example_response"
    by (rule example_call)
  have "state (example_request\<lparr>state := None\<rparr>) = None" by simp
  with default_state_and_case_insensitivity [where jd = "example_request\<lparr>state := None\<rparr>"]
  have "calculate_pricing (example_request\<lparr>state := None\<rparr>)
        = calculate_pricing (example_request\<lparr>state := None\<rparr>\<lparr>state := Some ''CA''\<rparr>)"
    by blast
  then have none: "calculate_pricing (example_request\<lparr>state := None\<rparr>) = Inr example_response"
    using ex run by simp
  from default_state_and_case_insensitivity [where jd = example_request and s = "''ca''" and s' = "''CA''"] ca(1)
  have "calculate_pricing (example_request\<lparr>state := Some ''ca''\<rparr>)
        = calculate_pricing (example_request\<lparr>state := Some ''CA''\<rparr>)"
    by blast
  then have lower_case: "calculate_pricing (example_request\<lparr>state := Some ''ca''\<rparr>) = Inr example_response"
    using ex run by simp
  from default_state_and_case_insensitivity [where jd = example_request and s = "''Ca''" and s' = "''CA''"] ca(2)
  have "calculate_pricing (example_request\<lparr>state := Some ''Ca''\<rparr>)
        = calculate_pricing (example_request\<lparr>state := Some ''CA''\<rparr>)"
    by blast
  then have mixed_case: "calculate_pricing (example_request\<lparr>state := Some ''Ca''\<rparr>) = Inr example_response"
    using ex run by simp
  from default_state_and_case_insensitivity [where jd = example_request and s = "''zz''"] zz
  have unknown: "calculate_pricing (example_request\<lparr>state := Some ''zz''\<rparr>) = Inl ''Invalid state code''"
    by blast
  from none lower_case mixed_case unknown show ?thesis by blast
qed

subsection \<open>Runs on the example requests\<close>

text \<open>A successful run, block by block.\<close>

lemma pricing_locals_run:
  assumes "STATE_LABOR_RATES (upper (field_get (state jd) ''CA'')) \<noteq> None"
    and "1 / 2 \<le> field_get (labor_hours jd) 2" and "field_get (labor_hours jd) 2 \<le> 100"
    and "labor_cost_of (upper (field_get (state jd) ''CA''))
           (lower (field_get (job_type jd) [])) (field_get (labor_hours jd) 2)
           (coerce_urgency (lower (field_get (urgency jd) ''normal''))) = lc"
    and "material_choice (field_get (material_prices jd) []) = (ms, mc)"
    and "calculate_logistics_cost (field_get (distance_km jd) 10) = lg"
    and "lc + mc + lg = s"
    and "py_round2 (lc * 0.68) = tp"
    and "margin_bounded_price s = Inr (a, c, m)"
    and "confidence_of (field_get (material_prices jd) []) (field_get (labor_hours jd) 2) c = cf"
    and "approval_of (coerce_urgency (lower (field_get (urgency jd) ''normal''))) c cf = ap"
  shows "pricing_locals jd =
           Inr \<lparr>labor_cost = lc, material_source = ms, material_cost = mc,
                  logistics_cost = lg, subtotal = s, technician_payout = tp,
                  actual_margin_percent = a, client_price = c, platform_margin = m,
                  pricing_confidence = cf, approval_required = ap\<rparr>"
  using assms by (simp add: pricing_locals_def Let_def not_less)

lemma lower_painting: "lower ''painting'' = ''painting''"
  by (simp add: case_defs)

lemma multiplier_painting: "JOB_TYPE_MULTIPLIERS ''painting'' = Some 1"
  by (simp add: table_defs)

lemma labor_cost_half_hour_painting: "labor_cost_of ''CA'' ''painting'' (1 / 2) ''normal'' = 19"
  by (simp add: labor_cost_of_def dict_get_def rate_CA multiplier_painting urgency_normal
      py_round_defs)

lemma material_choice_Nil: "material_choice [] = (''Standard Materials'', 0)"
  by (simp add: material_choice_def select_supplier_def)

lemma negative_run: "pricing_locals negative_request = Inr negative_locals"
  unfolding negative_locals_def
proof (rule pricing_locals_run)
  show "margin_bounded_price (- 431) = Inr (0, - 538.75, - 107.75)"
    by (simp add: margin_bounded_price_def target_client_price_def target_margin_percent_def
        margin_percent_def truediv_def adjust_margin_def py_round_defs)
  show "calculate_logistics_cost (field_get (distance_km negative_request) 10) = - 450"
    by (simp add: negative_request_def field_get_def calculate_logistics_cost_def
        LOGISTICS_RATE_PER_KM_def py_round_defs)
  show "py_round2 (19 * 0.68) = 12.92"
    by (simp add: py_round_defs)
qed (simp_all add: negative_request_def field_get_def upper_CA rate_CA lower_painting
      lower_normal coerce_urgency_normal labor_cost_half_hour_painting material_choice_Nil
      confidence_of_def approval_of_def)

lemma one_cent_run: "pricing_locals one_cent_request = Inr one_cent_locals"
  unfolding one_cent_locals_def
proof (rule pricing_locals_run)
  show "margin_bounded_price 0.01 = Inr (0, 0.01, 0)"
    by (simp add: margin_bounded_price_def target_client_price_def target_margin_percent_def
        margin_percent_def truediv_def adjust_margin_def py_round_defs)
  show "calculate_logistics_cost (field_get (distance_km one_cent_request) 10) = - 18.99"
    by (simp add: one_cent_request_def field_get_def calculate_logistics_cost_def
        LOGISTICS_RATE_PER_KM_def py_round_defs)
  show "py_round2 (19 * 0.68) = 12.92"
    by (simp add: py_round_defs)
  show "19 + 0 + - 18.99 = (0.01 :: rat)"
    by simp
qed (simp_all add: one_cent_request_def field_get_def upper_CA rate_CA lower_painting
      lower_normal coerce_urgency_normal labor_cost_half_hour_painting material_choice_Nil
      confidence_of_def approval_of_def)

subsection \<open>The guarded division\<close>

text \<open>
  Claim C9. The division that computes the margin percentage is guarded: it never raises
  \<^verbatim>\<open>ZeroDivisionError\<close>, and where the client price computed at line 133 is not strictly
  positive, the percentage is 0 and nothing is divided. That 0 is below 0.20, so the
  low-margin branch runs and the client price becomes \<^verbatim>\<open>round(subtotal / 0.80, 2)\<close>, the
  margin that price less the subtotal.
\<close>

theorem margin_division_guarded:
  "margin_percent m c \<noteq> Inl ZeroDivisionError
   \<and> (\<not> 0 < c \<longrightarrow> margin_percent m c = Inr 0)
   \<and> (\<not> 0 < target_client_price s \<longrightarrow>
        margin_bounded_price s
        = Inr (0, py_round2 (s / 0.80), py_round2 (py_round2 (s / 0.80) - s)))
   \<and> (pricing_locals jd = Inr q \<longrightarrow> \<not> 0 < target_client_price (subtotal q) \<longrightarrow>
        actual_margin_percent q = 0
        \<and> client_price q = py_round2 (subtotal q / 0.80)
        \<and> platform_margin q = py_round2 (client_price q - subtotal q))
   \<and> calculate_pricing jd \<noteq> Inl (str ZeroDivisionError)"
proof -
  have guard: "margin_percent m c \<noteq> Inl ZeroDivisionError"
    by (simp add: margin_percent_eq)
  have zero: "\<not> 0 < c \<longrightarrow> margin_percent m c = Inr 0"
    by (simp add: margin_percent_eq)
  have low: "margin_bounded_price x
        = Inr (0, py_round2 (x / 0.80), py_round2 (py_round2 (x / 0.80) - x))"
    if "\<not> 0 < target_client_price x" for x
    using that by (simp add: margin_bounded_price_eq adjust_margin_def Let_def)
  have run: "actual_margin_percent q = 0
        \<and> client_price q = py_round2 (subtotal q / 0.80)
        \<and> platform_margin q = py_round2 (client_price q - subtotal q)"
    if "pricing_locals jd = Inr q" and "\<not> 0 < target_client_price (subtotal q)"
  proof -
    have "Inr (actual_margin_percent q, client_price q, platform_margin q)
          = (Inr (0, py_round2 (subtotal q / 0.80),
               py_round2 (py_round2 (subtotal q / 0.80) - subtotal q))
             :: py_exception + rat \<times> rat \<times> rat)"
      using locals_margin [OF that(1)] low [OF that(2)] by (rule trans [OF sym])
    then have "actual_margin_percent q = 0"
      and "client_price q = py_round2 (subtotal q / 0.80)"
      and "platform_margin q = py_round2 (py_round2 (subtotal q / 0.80) - subtotal q)"
      by blast+
    then show ?thesis by metis
  qed
  have "calculate_pricing jd \<noteq> Inl (str ZeroDivisionError)"
    by (subst calculate_pricing_Inl, simp, subst pricing_locals_cases) simp
  with guard zero low run show ?thesis by blast
qed

theorem margin_division_guarded_witness:
  "margin_percent 5 0 = Inr 0
   \<and> \<not> 0 < target_client_price (- 431)
   \<and> margin_bounded_price (- 431) = Inr (0, - 538.75, - 107.75)
   \<and> pricing_locals negative_request = Inr negative_locals
   \<and> actual_margin_percent negative_locals = 0
   \<and> client_price negative_locals = py_round2 (subtotal negative_locals / 0.80)"
proof -
  have target: "target_client_price (- 431) = - 590.41"
    by (simp add: target_client_price_def target_margin_percent_def py_round_defs)
  have vals: "py_round2 (- 431 / 0.80) = - 538.75" "py_round2 (- 538.75 - - 431) = - 107.75"
    by (simp_all add: py_round_defs)
  have sub: "subtotal negative_locals = - 431"
    by (simp add: negative_locals_def)
  show ?thesis
    using margin_division_guarded [of 5 0 "- 431" negative_request negative_locals]
      negative_run target vals sub
    by simp
qed

subsection \<open>The technician's payout\<close>

text \<open>
  Claim C6. On every successful run the technician's payout is
  \<^verbatim>\<open>round(labor_cost * 0.68, 2)\<close>, and the response carries it rounded to a whole unit.
  It does not depend on the material quotes, the distance or the job description: with
  these three replaced by any others the run still succeeds, with the same labour cost
  and the same payout.
\<close>

theorem technician_payout_formula:
  assumes "pricing_locals jd = Inr q"
  shows "technician_payout q = py_round2 (labor_cost q * 0.68)
    \<and> resp_technician_payout (build_response q) = py_round (py_round2 (labor_cost q * 0.68))
    \<and> (\<exists>q'. pricing_locals
                (jd\<lparr>job_description := t, distance_km := d, material_prices := mp\<rparr>) = Inr q'
             \<and> labor_cost q' = labor_cost q
             \<and> technician_payout q' = technician_payout q)"
proof -
  let ?jd' = "jd\<lparr>job_description := t, distance_km := d, material_prices := mp\<rparr>"
  have payout: "technician_payout q = py_round2 (labor_cost q * 0.68)"
    by (rule locals_technician_payout [OF assms])
  then have rounded:
    "resp_technician_payout (build_response q) = py_round (py_round2 (labor_cost q * 0.68))"
    by (simp add: build_response_def)
  have "\<exists>q'. pricing_locals ?jd' = Inr q'"
    using pricing_locals_valid [OF assms] by (intro pricing_locals_succeeds) simp_all
  then obtain q' where run': "pricing_locals ?jd' = Inr q'" ..
  have "labor_cost q' = labor_cost q"
    using locals_labor_cost [OF run'] locals_labor_cost [OF assms] by simp
  moreover from this have "technician_payout q' = technician_payout q"
    using locals_technician_payout [OF run'] payout by simp
  ultimately show ?thesis
    using payout rounded run' by blast
qed

theorem technician_payout_formula_witness:
  "technician_payout example_locals = py_round2 (labor_cost example_locals * 0.68)
   \<and> technician_payout example_locals = 62.02
   \<and> (\<exists>q'. pricing_locals
               (example_request\<lparr>job_description := Some ''leaking tap'',
                  distance_km := Some 250, material_prices := Some [(''Acme'', 12.5)]\<rparr>)
             = Inr q'
            \<and> labor_cost q' = 91.20 \<and> technician_payout q' = 62.02)"
  using technician_payout_formula [OF example_run, where t = "Some ''leaking tap''"
      and d = "Some 250" and mp = "Some [(''Acme'', 12.5)]"]
  by (simp add: example_locals_def)

subsection \<open>Unknown job types and urgencies\<close>





subsection \<open>Supplier selection\<close>

lemma sort_key_nonempty: "xs \<noteq> [] \<Longrightarrow> sort_key f xs \<noteq> []"
  by (metis length_sort length_0_conv)

lemma hd_sort_key_least:
  assumes "xs \<noteq> []" and "e \<in> set xs"
  shows "f (hd (sort_key f xs)) \<le> f e"
proof -
  obtain y ys where ys: "sort_key f xs = y # ys"
    using sort_key_nonempty [OF assms(1), of f] by (cases "sort_key f xs") auto
  have "sorted (map f (y # ys))"
    using sorted_sort_key [of f xs] by (simp add: ys)
  moreover have "e \<in> set (y # ys)"
    using assms(2) set_sort [of f xs] by (simp add: ys)
  ultimately show ?thesis by (auto simp: ys)
qed

lemma hd_sort_key_mem:
  assumes "xs \<noteq> []"
  shows "hd (sort_key f xs) \<in> set xs"
  using hd_in_set [OF sort_key_nonempty [OF assms, of f]] by simp

lemma hd_sort_key_Min:
  assumes "xs \<noteq> []"
  shows "f (hd (sort_key f xs)) = Min (f ` set xs)"
proof (rule sym, rule Min_eqI)
  show "finite (f ` set xs)" by simp
  show "f (hd (sort_key f xs)) \<in> f ` set xs"
    using hd_sort_key_mem [OF assms] by blast
  show "\<And>y. y \<in> f ` set xs \<Longrightarrow> f (hd (sort_key f xs)) \<le> y"
    using hd_sort_key_least [OF assms] by blast
qed

text \<open>Stability: the head of the sorted list is the first entry with the least key.\<close>

lemma hd_sort_key_first:
  assumes "xs \<noteq> []"
  shows "hd (sort_key f xs) = hd (filter (\<lambda>e. f e = Min (f ` set xs)) xs)"
proof -
  obtain y ys where ys: "sort_key f xs = y # ys"
    using sort_key_nonempty [OF assms, of f] by (cases "sort_key f xs") auto
  have key: "f y = Min (f ` set xs)"
    using hd_sort_key_Min [OF assms, of f] by (simp add: ys)
  have "filter (\<lambda>e. f e = Min (f ` set xs)) xs
        = filter (\<lambda>e. f e = Min (f ` set xs)) (sort_key f xs)"
    by (rule sort_key_stable [symmetric])
  also have "\<dots> = y # filter (\<lambda>e. f e = Min (f ` set xs)) ys"
    by (simp add: ys key)
  finally show ?thesis by (simp add: ys)
qed

lemma select_supplier_Cons:
  assumes "mp \<noteq> []"
  shows "select_supplier mp
         = (Some (fst (hd (filter (\<lambda>e. snd e = Min (snd ` set mp)) mp))), Min (snd ` set mp))"
  using assms hd_sort_key_first [OF assms, of snd] hd_sort_key_Min [OF assms, of snd]
  by (simp add: select_supplier_def Let_def)

lemma first_least_entry:
  assumes "mp \<noteq> []"
  shows "hd (filter (\<lambda>e. snd e = Min (snd ` set mp)) mp) \<in> set mp"
    and "snd (hd (filter (\<lambda>e. snd e = Min (snd ` set mp)) mp)) = Min (snd ` set mp)"
  using hd_sort_key_mem [OF assms, of snd] hd_sort_key_Min [OF assms, of snd]
  by (simp_all add: hd_sort_key_first [OF assms, of snd, symmetric])

lemma select_supplier_snd: "snd (select_supplier mp) = (if mp = [] then 0 else Min (snd ` set mp))"
  by (simp add: select_supplier_Cons) (simp add: select_supplier_def)

text \<open>
  Claim C5. For a non-empty mapping \<^verbatim>\<open>select_supplier\<close> returns an entry of the mapping
  whose price is the least of all quoted prices, and among the entries with that price
  the first in insertion order. The chosen price is the same for every permutation of the
  entries. For the empty mapping it returns \<^verbatim>\<open>(None, 0)\<close>, and the caller then reports the
  source ``Standard Materials'' and the material cost 0.
\<close>

theorem select_supplier_contract:
  "(mp \<noteq> [] \<longrightarrow>
      (\<exists>name. select_supplier mp = (Some name, Min (snd ` set mp))
              \<and> (name, Min (snd ` set mp)) \<in> set mp)
      \<and> (\<forall>e \<in> set mp. snd (select_supplier mp) \<le> snd e)
      \<and> fst (select_supplier mp)
          = Some (fst (hd (filter (\<lambda>e. snd e = Min (snd ` set mp)) mp))))
   \<and> (mset mp' = mset mp \<longrightarrow> snd (select_supplier mp') = snd (select_supplier mp))
   \<and> select_supplier [] = (None, 0)
   \<and> material_choice [] = (''Standard Materials'', 0)
   \<and> (pricing_locals jd = Inr q \<longrightarrow> field_get (material_prices jd) [] = [] \<longrightarrow>
        material_source q = ''Standard Materials'' \<and> material_cost q = 0)"
proof -
  have chosen: "\<exists>name. select_supplier mp = (Some name, Min (snd ` set mp))
              \<and> (name, Min (snd ` set mp)) \<in> set mp" if "mp \<noteq> []"
  proof -
    let ?e = "hd (filter (\<lambda>e. snd e = Min (snd ` set mp)) mp)"
    have "(fst ?e, Min (snd ` set mp)) \<in> set mp"
      using first_least_entry [OF that] by (metis prod.collapse)
    then show ?thesis
      using select_supplier_Cons [OF that] by blast
  qed
  have least: "\<forall>e \<in> set mp. snd (select_supplier mp) \<le> snd e" if "mp \<noteq> []"
    using that by (simp add: select_supplier_Cons)
  have first: "fst (select_supplier mp)
          = Some (fst (hd (filter (\<lambda>e. snd e = Min (snd ` set mp)) mp)))" if "mp \<noteq> []"
    using that by (simp add: select_supplier_Cons)
  have perm: "snd (select_supplier mp') = snd (select_supplier mp)" if "mset mp' = mset mp"
  proof -
    from that have "set mp' = set mp" by (rule mset_eq_setD)
    moreover from that have "mp' = [] \<longleftrightarrow> mp = []"
      by (metis mset_zero_iff)
    ultimately show ?thesis by (simp add: select_supplier_snd)
  qed
  have empty: "select_supplier [] = (None, 0)"
    by (simp add: select_supplier_def)
  have caller: "material_source q = ''Standard Materials'' \<and> material_cost q = 0"
    if "pricing_locals jd = Inr q" and "field_get (material_prices jd) [] = []"
    using locals_material [OF that(1)] that(2) by (simp add: material_choice_Nil)
  show ?thesis
    using chosen least first perm empty material_choice_Nil caller by blast
qed

theorem select_supplier_contract_witness:
  "select_supplier [(''B'', 3), (''A'', 2), (''C'', 2)] = (Some ''A'', 2)
   \<and> snd (select_supplier [(''C'', 2), (''B'', 3), (''A'', 2)]) = 2
   \<and> material_source example_locals = ''Standard Materials''
   \<and> material_cost example_locals = 0"
proof -
  let ?mp = "[(''B'', 3), (''A'', 2), (''C'', 2)] :: (string \<times> rat) list"
  let ?mp' = "[(''C'', 2), (''B'', 3), (''A'', 2)] :: (string \<times> rat) list"
  note contract = select_supplier_contract
      [where mp = ?mp and mp' = ?mp' and jd = example_request and q = example_locals]
  have least: "Min (snd ` set ?mp) = 2" by simp
  have perm: "mset ?mp' = mset ?mp" by (simp add: add.commute)
  have "?mp \<noteq> []" by simp
  with contract obtain name where "select_supplier ?mp = (Some name, Min (snd ` set ?mp))"
    and "fst (select_supplier ?mp)
          = Some (fst (hd (filter (\<lambda>e. snd e = Min (snd ` set ?mp)) ?mp)))"
    by blast
  then have a: "select_supplier ?mp = (Some ''A'', 2)"
    by (simp add: least)
  from contract perm have "snd (select_supplier ?mp') = snd (select_supplier ?mp)"
    by blast
  with a have b: "snd (select_supplier ?mp') = 2" by simp
  have "field_get (material_prices example_request) [] = []"
    by (simp add: example_request_def field_get_def)
  with contract example_run
  have c: "material_source example_locals = ''Standard Materials''
           \<and> material_cost example_locals = 0"
    by blast
  from a b c show ?thesis by blast
qed

subsection \<open>Amounts with two decimals\<close>

text \<open>An amount has two decimals when \<^verbatim>\<open>round(x, 2)\<close> leaves it as it is.\<close>

lemma two_decimals_hundredths:
  assumes "py_round2 x = x"
  obtains k :: int where "x = of_int k / 100"
  using assms by (metis py_round2_def)

lemma two_decimals_add:
  assumes "py_round2 x = x" and "py_round2 y = y"
  shows "py_round2 (x + y) = x + y"
proof -
  obtain k l :: int where "x = of_int k / 100" and "y = of_int l / 100"
    using assms by (metis two_decimals_hundredths)
  then have "x + y = of_int (k + l) / 100"
    by (simp add: add_divide_distrib)
  then show ?thesis
    by (simp only: py_round2_hundredths)
qed

lemma two_decimals_diff:
  assumes "py_round2 x = x" and "py_round2 y = y"
  shows "py_round2 (x - y) = x - y"
proof -
  obtain k l :: int where "x = of_int k / 100" and "y = of_int l / 100"
    using assms by (metis two_decimals_hundredths)
  then have "x - y = of_int (k - l) / 100"
    by (simp add: diff_divide_distrib)
  then show ?thesis
    by (simp only: py_round2_hundredths)
qed

lemma material_choice_two_decimals: "py_round2 (snd (material_choice mp)) = snd (material_choice mp)"
  by (simp add: material_choice_def split: prod.split option.split)

lemma locals_two_decimals:
  assumes "pricing_locals jd = Inr q"
  shows "py_round2 (labor_cost q) = labor_cost q"
    and "py_round2 (material_cost q) = material_cost q"
    and "py_round2 (logistics_cost q) = logistics_cost q"
    and "py_round2 (subtotal q) = subtotal q"
proof -
  show lc: "py_round2 (labor_cost q) = labor_cost q"
    by (simp add: locals_labor_cost [OF assms] labor_cost_of_def Let_def)
  show mc: "py_round2 (material_cost q) = material_cost q"
    using locals_material [OF assms] material_choice_two_decimals
    by (metis snd_conv)
  show lg: "py_round2 (logistics_cost q) = logistics_cost q"
    by (simp add: locals_logistics_cost [OF assms] calculate_logistics_cost_def Let_def)
  show "py_round2 (subtotal q) = subtotal q"
    unfolding locals_subtotal [OF assms]
    by (intro two_decimals_add lc mc lg)
qed

subsection \<open>The margin\<close>

lemma target_client_price_eq: "target_client_price s = py_round2 (s / (73 / 100))"
  by (simp add: target_client_price_def target_margin_percent_def)

text \<open>From five hundredths on, the target price has its margin within the bounds.\<close>

lemma target_margin_within:
  assumes "5 / 100 \<le> s"
  shows "0 < target_client_price s"
    and "target_client_price s * (20 / 100) \<le> target_client_price s - s"
    and "target_client_price s - s \<le> target_client_price s * (35 / 100)"
proof -
  let ?c = "target_client_price s"
  have lo: "s / (73 / 100) - 1 / 200 \<le> ?c"
    unfolding target_client_price_eq by (rule py_round2_lower)
  have hi: "?c \<le> s / (73 / 100) + 1 / 200"
    unfolding target_client_price_eq by (rule py_round2_upper)
  have frac: "s / (73 / 100) = s * (100 / 73)"
    by simp
  from lo assms show "0 < ?c"
    unfolding frac by linarith
  from lo assms show "?c * (20 / 100) \<le> ?c - s"
    unfolding frac by linarith
  from hi assms show "?c - s \<le> ?c * (35 / 100)"
    unfolding frac by linarith
qed

text \<open>
  From five hundredths on, a two-decimal subtotal keeps its target price: the margin
  percentage is within the bounds and neither branch of the adjustment runs.
\<close>

lemma margin_bounded_price_target:
  assumes "py_round2 s = s" and "5 / 100 \<le> s"
  shows "margin_bounded_price s
           = Inr ((target_client_price s - s) / target_client_price s,
                  target_client_price s, target_client_price s - s)
         \<and> 0 < target_client_price s
         \<and> 20 / 100 \<le> (target_client_price s - s) / target_client_price s
         \<and> (target_client_price s - s) / target_client_price s \<le> 35 / 100"
proof -
  let ?c = "target_client_price s"
  note within = target_margin_within [OF assms(2)]
  have "py_round2 ?c = ?c"
    by (simp add: target_client_price_def)
  then have m: "py_round2 (?c - s) = ?c - s"
    using assms(1) by (rule two_decimals_diff)
  have lo: "20 / 100 \<le> (?c - s) / ?c"
    using within(1,2) by (simp add: pos_le_divide_eq mult.commute)
  have hi: "(?c - s) / ?c \<le> 35 / 100"
    using within(1,3) by (simp add: pos_divide_le_eq mult.commute)
  have "margin_bounded_price s = Inr ((?c - s) / ?c, ?c, ?c - s)"
    using within(1) lo hi
    by (simp add: margin_bounded_price_eq m adjust_margin_def Let_def not_less)
  with within(1) lo hi show ?thesis by simp
qed

text \<open>A run whose subtotal is at least five hundredths keeps the target price.\<close>

lemma locals_keep_target:
  assumes "pricing_locals jd = Inr q" and "5 / 100 \<le> subtotal q"
  shows "client_price q = target_client_price (subtotal q)"
    and "platform_margin q = client_price q - subtotal q"
    and "actual_margin_percent q = platform_margin q / client_price q"
    and "0 < client_price q"
    and "20 / 100 \<le> actual_margin_percent q"
    and "actual_margin_percent q \<le> 35 / 100"
proof -
  let ?c = "target_client_price (subtotal q)"
  from locals_two_decimals(4) [OF assms(1)] assms(2)
  have "margin_bounded_price (subtotal q) = Inr ((?c - subtotal q) / ?c, ?c, ?c - subtotal q)
         \<and> 0 < ?c \<and> 20 / 100 \<le> (?c - subtotal q) / ?c
         \<and> (?c - subtotal q) / ?c \<le> 35 / 100"
    by (rule margin_bounded_price_target)
  then have target:
      "margin_bounded_price (subtotal q) = Inr ((?c - subtotal q) / ?c, ?c, ?c - subtotal q)"
    and bounds: "0 < ?c" "20 / 100 \<le> (?c - subtotal q) / ?c"
      "(?c - subtotal q) / ?c \<le> 35 / 100"
    by blast+
  have "Inr (actual_margin_percent q, client_price q, platform_margin q)
        = (Inr ((?c - subtotal q) / ?c, ?c, ?c - subtotal q)
           :: py_exception + rat \<times> rat \<times> rat)"
    using locals_margin [OF assms(1)] target by (rule trans [OF sym])
  then have final: "actual_margin_percent q = (?c - subtotal q) / ?c"
    "client_price q = ?c" "platform_margin q = ?c - subtotal q"
    by blast+
  show "client_price q = ?c"
    by (rule final(2))
  show "platform_margin q = client_price q - subtotal q"
    by (simp only: final)
  show "actual_margin_percent q = platform_margin q / client_price q"
    by (simp only: final)
  show "0 < client_price q"
    unfolding final by (rule bounds(1))
  show "20 / 100 \<le> actual_margin_percent q"
    unfolding final by (rule bounds(2))
  show "actual_margin_percent q \<le> 35 / 100"
    unfolding final by (rule bounds(3))
qed

text \<open>
  Claim C1: for every validated input with a positive subtotal the final ratio
  platform_margin / client_price lies in [0.20, 0.35], which the comment of line 138
  gives as the purpose of lines 138--149. The code misses it at the request
  \<open>one_cent_request\<close>: the validation passes, the subtotal 0.01 is positive, the margin
  percentage 0 takes the low-margin branch of line 142, and the price recomputed by
  line 144, \<^verbatim>\<open>round(0.01 / 0.80, 2)\<close>, is 0.01 again. The margin stays 0 and the final
  ratio is 0.
\<close>

theorem one_cent_margin_ratio:
  "pricing_locals one_cent_request = Inr one_cent_locals
   \<and> calculate_pricing one_cent_request = Inr (build_response one_cent_locals)
   \<and> 0 < subtotal one_cent_locals
   \<and> actual_margin_percent one_cent_locals < 0.20
   \<and> client_price one_cent_locals = py_round2 (subtotal one_cent_locals / 0.80)
   \<and> platform_margin one_cent_locals / client_price one_cent_locals = 0
   \<and> \<not> (0.20 \<le> platform_margin one_cent_locals / client_price one_cent_locals
          \<and> platform_margin one_cent_locals / client_price one_cent_locals \<le> 0.35)"
proof -
  have "response_exception one_cent_locals = None"
    by (simp add: response_exception_None isinf_def float_max_def one_cent_locals_def)
  with one_cent_run
  have "calculate_pricing one_cent_request = Inr (build_response one_cent_locals)"
    by (rule calculate_pricing_Inr)
  moreover have "py_round2 (0.01 / 0.80) = 0.01"
    by (simp add: py_round_defs)
  ultimately show ?thesis
    by (simp add: one_cent_run) (simp add: one_cent_locals_def)
qed

subsection \<open>Inputs that are not negative\<close>

lemma table_value_positive:
  "STATE_LABOR_RATES st = Some r \<Longrightarrow> 0 < r"
  "JOB_TYPE_MULTIPLIERS jt = Some j \<Longrightarrow> 0 < j"
  "URGENCY_MULTIPLIERS u = Some v \<Longrightarrow> 0 < v"
proof -
  assume "STATE_LABOR_RATES st = Some r"
  then have "(st, r) \<in> set STATE_LABOR_RATES_items"
    unfolding STATE_LABOR_RATES_def by (rule map_of_SomeD)
  then show "0 < r"
    by (auto simp: STATE_LABOR_RATES_items_def)
next
  assume "JOB_TYPE_MULTIPLIERS jt = Some j"
  then have "(jt, j) \<in> set JOB_TYPE_MULTIPLIERS_items"
    unfolding JOB_TYPE_MULTIPLIERS_def by (rule map_of_SomeD)
  then show "0 < j"
    by (auto simp: JOB_TYPE_MULTIPLIERS_items_def)
next
  assume "URGENCY_MULTIPLIERS u = Some v"
  then have "(u, v) \<in> set URGENCY_MULTIPLIERS_items"
    unfolding URGENCY_MULTIPLIERS_def by (rule map_of_SomeD)
  then show "0 < v"
    by (auto simp: URGENCY_MULTIPLIERS_items_def)
qed

lemma dict_get_nonneg:
  "0 \<le> dict_get STATE_LABOR_RATES st 30"
  "0 \<le> dict_get JOB_TYPE_MULTIPLIERS jt 1"
  "0 \<le> dict_get URGENCY_MULTIPLIERS u 1"
  using table_value_positive(1) [of st] table_value_positive(2) [of jt]
    table_value_positive(3) [of u]
  by (auto simp: dict_get_def less_imp_le split: option.splits)

lemma labor_cost_of_nonneg:
  assumes "0 \<le> h"
  shows "0 \<le> labor_cost_of st jt h u"
  unfolding labor_cost_of_def Let_def
  by (intro py_round2_nonneg mult_nonneg_nonneg assms) (simp_all add: dict_get_nonneg)

lemma material_choice_nonneg:
  assumes "\<forall>e \<in> set mp. 0 \<le> snd e"
  shows "0 \<le> snd (material_choice mp)"
proof (cases "mp = []")
  case True
  then show ?thesis by (simp add: material_choice_Nil)
next
  case False
  have "Min (snd ` set mp) \<in> snd ` set mp"
    using False by (intro Min_in) simp_all
  with assms have "0 \<le> Min (snd ` set mp)" by auto
  then show ?thesis
    by (simp add: material_choice_def select_supplier_Cons [OF False] py_round2_nonneg)
qed

lemma logistics_cost_at_least_fee:
  assumes "0 \<le> d"
  shows "50 \<le> calculate_logistics_cost d"
proof -
  have "py_round2 (of_int 5000 / 100) \<le> py_round2 (50 + d * (50 / 100))"
    using assms by (intro py_round2_mono) simp
  then show ?thesis
    unfolding py_round2_hundredths
    by (simp add: calculate_logistics_cost_def LOGISTICS_RATE_PER_KM_def Let_def)
qed

lemma subtotal_at_least_fee:
  assumes "pricing_locals jd = Inr q"
    and "0 \<le> field_get (distance_km jd) 10"
    and "\<forall>e \<in> set (field_get (material_prices jd) []). 0 \<le> snd e"
  shows "50 \<le> subtotal q"
proof -
  have "0 \<le> field_get (labor_hours jd) 2"
    using pricing_locals_valid(2) [OF assms(1)] by simp
  then have "0 \<le> labor_cost q"
    unfolding locals_labor_cost [OF assms(1)] by (rule labor_cost_of_nonneg)
  moreover have "material_cost q = snd (material_choice (field_get (material_prices jd) []))"
    using locals_material [OF assms(1)] by (metis snd_conv)
  then have "0 \<le> material_cost q"
    using material_choice_nonneg [OF assms(3)] by simp
  moreover have "50 \<le> logistics_cost q"
    unfolding locals_logistics_cost [OF assms(1)]
    using assms(2) by (rule logistics_cost_at_least_fee)
  ultimately show ?thesis
    unfolding locals_subtotal [OF assms(1)] by linarith
qed

text \<open>
  Claim C8. For every input that passes validation with a positive distance and positive
  material prices (the hours are positive by validation), neither branch of the margin
  adjustment runs: the margin percentage computed from the price
  \<^verbatim>\<open>round(subtotal / 0.73, 2)\<close> is neither below 0.20 nor above 0.35, and price and margin
  stay as computed from the 27 percent target.
\<close>

theorem adjustment_unreachable_for_positive_inputs:
  assumes "pricing_locals jd = Inr q"
    and "0 < field_get (distance_km jd) 10"
    and "\<forall>e \<in> set (field_get (material_prices jd) []). 0 < snd e"
  shows "0 < field_get (labor_hours jd) 2
    \<and> \<not> actual_margin_percent q < 0.20
    \<and> \<not> actual_margin_percent q > 0.35
    \<and> margin_percent (py_round2 (target_client_price (subtotal q) - subtotal q))
          (target_client_price (subtotal q)) = Inr (actual_margin_percent q)
    \<and> adjust_margin (subtotal q) (target_client_price (subtotal q))
          (py_round2 (target_client_price (subtotal q) - subtotal q))
          (actual_margin_percent q)
        = (target_client_price (subtotal q),
           py_round2 (target_client_price (subtotal q) - subtotal q))
    \<and> client_price q = py_round2 (subtotal q / 0.73)
    \<and> platform_margin q = py_round2 (client_price q - subtotal q)"
proof -
  have hours: "0 < field_get (labor_hours jd) 2"
    using pricing_locals_valid(2) [OF assms(1)] by simp
  have "50 \<le> subtotal q"
    using assms by (intro subtotal_at_least_fee [of jd]) (auto simp: less_imp_le)
  then have "5 / 100 \<le> subtotal q"
    by simp
  note kept = locals_keep_target [OF assms(1) this]
  have low: "\<not> actual_margin_percent q < 0.20"
    using kept(5) by simp
  have high: "\<not> actual_margin_percent q > 0.35"
    using kept(6) by simp
  have "py_round2 (client_price q) = client_price q"
    by (simp add: kept(1) target_client_price_def)
  then have margin: "py_round2 (client_price q - subtotal q) = client_price q - subtotal q"
    using locals_two_decimals(4) [OF assms(1)] by (rule two_decimals_diff)
  have percent: "margin_percent (py_round2 (target_client_price (subtotal q) - subtotal q))
          (target_client_price (subtotal q)) = Inr (actual_margin_percent q)"
    using kept(4) margin
    by (simp add: margin_percent_eq kept(1) [symmetric] kept(3) kept(2))
  have unchanged: "adjust_margin (subtotal q) (target_client_price (subtotal q))
          (py_round2 (target_client_price (subtotal q) - subtotal q))
          (actual_margin_percent q)
        = (target_client_price (subtotal q),
           py_round2 (target_client_price (subtotal q) - subtotal q))"
    using low high by (simp add: adjust_margin_def)
  have price: "client_price q = py_round2 (subtotal q / 0.73)"
    by (simp add: kept(1) target_client_price_eq)
  have "platform_margin q = py_round2 (client_price q - subtotal q)"
    by (simp only: margin kept(2))
  with hours low high percent unchanged price show ?thesis
    by blast
qed

theorem adjustment_unreachable_for_positive_inputs_witness:
  "pricing_locals example_request = Inr example_locals
   \<and> \<not> actual_margin_percent example_locals < 0.20
   \<and> \<not> actual_margin_percent example_locals > 0.35
   \<and> client_price example_locals = py_round2 (subtotal example_locals / 0.73)
   \<and> (\<exists>q. pricing_locals (example_request\<lparr>material_prices := Some [(''Acme'', 12.5)]\<rparr>) = Inr q
          \<and> \<not> actual_margin_percent q < 0.20 \<and> \<not> actual_margin_percent q > 0.35
          \<and> client_price q = py_round2 (subtotal q / 0.73))"
proof -
  have d: "0 < field_get (distance_km example_request) 10"
    and none: "\<forall>e \<in> set (field_get (material_prices example_request) []). 0 < snd e"
    by (simp_all add: example_request_def field_get_def)
  note first = adjustment_unreachable_for_positive_inputs [OF example_run d none]
  let ?jd = "example_request\<lparr>material_prices := Some [(''Acme'', 12.5)]\<rparr>"
  have "\<exists>q. pricing_locals ?jd = Inr q"
    by (intro pricing_locals_succeeds)
      (simp_all add: example_request_def field_get_def upper_CA rate_CA)
  then obtain q where run: "pricing_locals ?jd = Inr q" ..
  have d': "0 < field_get (distance_km ?jd) 10"
    and some: "\<forall>e \<in> set (field_get (material_prices ?jd) []). 0 < snd e"
    by (simp_all add: example_request_def field_get_def)
  note second = adjustment_unreachable_for_positive_inputs [OF run d' some]
  from first second run example_run show ?thesis
    by blast
qed

subsection \<open>The price against the subtotal\<close>

text \<open>
  Claim C2 fails as stated: at a distance of -1000 km the validation passes, the subtotal
  is -431, the client price -538.75 is below it and the platform margin is -107.75; the
  response carries the price -539 and the margin -108.
\<close>

theorem price_below_subtotal_counterexample:
  "pricing_locals negative_request = Inr negative_locals
   \<and> client_price negative_locals < subtotal negative_locals
   \<and> platform_margin negative_locals < 0
   \<and> calculate_pricing negative_request = Inr (build_response negative_locals)
   \<and> resp_client_price (build_response negative_locals) = - 539
   \<and> resp_platform_margin (build_response negative_locals) = - 108"
proof -
  have "response_exception negative_locals = None"
    by (simp add: response_exception_None isinf_def float_max_def negative_locals_def)
  with negative_run
  have "calculate_pricing negative_request = Inr (build_response negative_locals)"
    by (rule calculate_pricing_Inr)
  then show ?thesis
    by (simp add: negative_run)
      (simp add: negative_locals_def build_response_def py_round_def Let_def)
qed

text \<open>
  Claim C2, amended. For every input whose distance_km and quoted material prices are
  not negative and on which \<^verbatim>\<open>calculate_pricing\<close> returns a response, client_price is at
  least the subtotal and platform_margin is at least 0, both as two-decimal amounts and
  as the whole units of the response.
\<close>

theorem price_covers_subtotal:
  assumes "pricing_locals jd = Inr q"
    and "calculate_pricing jd = Inr r"
    and "0 \<le> field_get (distance_km jd) 10"
    and "\<forall>e \<in> set (field_get (material_prices jd) []). 0 \<le> snd e"
  shows "subtotal q \<le> client_price q
    \<and> 0 \<le> platform_margin q
    \<and> subtotal q \<le> of_int (resp_client_price r)
    \<and> 0 \<le> resp_platform_margin r"
proof -
  have r: "r = build_response q"
    using assms(1,2) by (auto elim: calculate_pricing_InrD)
  have fee: "50 \<le> subtotal q"
    using assms(1,3,4) by (rule subtotal_at_least_fee)
  then have small: "5 / 100 \<le> subtotal q"
    by simp
  note kept = locals_keep_target [OF assms(1) small]
  note within = target_margin_within [OF small]
  have margin: "0 \<le> platform_margin q"
    using within(1,2) unfolding kept(2) kept(1) by linarith
  then have price: "subtotal q \<le> client_price q"
    unfolding kept(2) by simp
  have frac: "subtotal q / (73 / 100) = subtotal q * (100 / 73)"
    by simp
  have "subtotal q / (73 / 100) - 1 / 200 \<le> client_price q"
    unfolding kept(1) target_client_price_eq by (rule py_round2_lower)
  then have "subtotal q * (100 / 73) - 1 / 200 \<le> client_price q"
    unfolding frac .
  moreover have "client_price q - 1 / 2 \<le> of_int (py_round (client_price q))"
    by (rule py_round_lower)
  ultimately have "subtotal q \<le> of_int (py_round (client_price q))"
    using fee by linarith
  then have whole_price: "subtotal q \<le> of_int (resp_client_price r)"
    by (simp add: r build_response_def)
  have "py_round 0 \<le> py_round (platform_margin q)"
    using margin by (rule py_round_mono)
  then have whole_margin: "0 \<le> resp_platform_margin r"
    using py_round_of_int [of 0] by (simp add: r build_response_def)
  from price margin whole_price whole_margin show ?thesis
    by blast
qed

theorem price_covers_subtotal_witness:
  "subtotal example_locals \<le> client_price example_locals
   \<and> 0 \<le> platform_margin example_locals
   \<and> subtotal example_locals \<le> of_int (resp_client_price example_response)
   \<and> 0 \<le> resp_platform_margin example_response"
proof -
  have "0 \<le> field_get (distance_km example_request) 10"
    and "\<forall>e \<in> set (field_get (material_prices example_request) []). 0 \<le> snd e"
    by (simp_all add: example_request_def field_get_def)
  then show ?thesis
    by (rule price_covers_subtotal [OF example_run example_call])
qed

subsection \<open>Validation and overflow\<close>














end
